theory Spec2Isabelle
  imports Complex_Main "HOL-Library.AList"
begin

section \<open>Floating-point values\<close>

text \<open>
  The values of \<^verbatim>\<open>load_gbis.py\<close> are numpy floating-point numbers. A finite value is
  modelled by the real number it denotes and finite arithmetic is taken to be exact (no
  rounding, overflow or underflow of double-precision operations). The IEEE 754 special
  values are kept, since the program computes with them: the grids are filled with NaN, and
  a division by zero of numpy scalars does not raise but yields an infinity or NaN.
  \<open>Fin 0\<close> is the positive zero, \<open>NZero\<close> the negative one.
\<close>

datatype fl = Fin real | NZero | PInf | NInf | NaN

fun sign_bit :: "fl \<Rightarrow> bool" where
  "sign_bit (Fin x) = (x < 0)"
| "sign_bit NZero = True"
| "sign_bit PInf = False"
| "sign_bit NInf = True"
| "sign_bit NaN = False"

fun real_of :: "fl \<Rightarrow> real" where
  "real_of (Fin x) = x"
| "real_of NZero = 0"
| "real_of PInf = 0"
| "real_of NInf = 0"
| "real_of NaN = 0"

fun is_zero :: "fl \<Rightarrow> bool" where
  "is_zero (Fin x) = (x = 0)"
| "is_zero NZero = True"
| "is_zero PInf = False"
| "is_zero NInf = False"
| "is_zero NaN = False"

fun is_inf :: "fl \<Rightarrow> bool" where
  "is_inf (Fin x) = False"
| "is_inf NZero = False"
| "is_inf PInf = True"
| "is_inf NInf = True"
| "is_inf NaN = False"

fun is_finite :: "fl \<Rightarrow> bool" where
  "is_finite (Fin x) = True"
| "is_finite NZero = True"
| "is_finite PInf = False"
| "is_finite NInf = False"
| "is_finite NaN = False"

definition zero_s :: "bool \<Rightarrow> fl" where
  "zero_s neg = (if neg then NZero else Fin 0)"

definition inf_s :: "bool \<Rightarrow> fl" where
  "inf_s neg = (if neg then NInf else PInf)"

text \<open>\<^verbatim>\<open>a * b\<close> on numpy doubles.\<close>

definition fmul :: "fl \<Rightarrow> fl \<Rightarrow> fl" where
  "fmul a b =
     (if a = NaN \<or> b = NaN then NaN
      else if (is_inf a \<and> is_zero b) \<or> (is_zero a \<and> is_inf b) then NaN
      else if is_inf a \<or> is_inf b then inf_s (sign_bit a \<noteq> sign_bit b)
      else if is_zero a \<or> is_zero b then zero_s (sign_bit a \<noteq> sign_bit b)
      else Fin (real_of a * real_of b))"

text \<open>
  \<^verbatim>\<open>a / b\<close> on numpy doubles: a zero divisor raises nothing (numpy only warns); the
  quotient is an infinity, or NaN for \<^verbatim>\<open>0 / 0\<close>.
\<close>

definition fdiv :: "fl \<Rightarrow> fl \<Rightarrow> fl" where
  "fdiv a b =
     (if a = NaN \<or> b = NaN then NaN
      else if is_inf a then (if is_inf b then NaN else inf_s (sign_bit a \<noteq> sign_bit b))
      else if is_inf b then zero_s (sign_bit a \<noteq> sign_bit b)
      else if is_zero b then (if is_zero a then NaN else inf_s (sign_bit a \<noteq> sign_bit b))
      else if is_zero a then zero_s (sign_bit a \<noteq> sign_bit b)
      else Fin (real_of a / real_of b))"

text \<open>\<^verbatim>\<open>a + b\<close> on numpy doubles.\<close>

definition fadd :: "fl \<Rightarrow> fl \<Rightarrow> fl" where
  "fadd a b =
     (if a = NaN \<or> b = NaN then NaN
      else if is_inf a then (if is_inf b \<and> a \<noteq> b then NaN else a)
      else if is_inf b then b
      else if a = NZero \<and> b = NZero then NZero
      else Fin (real_of a + real_of b))"

text \<open>\<^verbatim>\<open>a ** 2\<close>: the square, never negative.\<close>

definition fpow2 :: "fl \<Rightarrow> fl" where
  "fpow2 a = fmul a a"

text \<open>
  \<^verbatim>\<open>a ** 0.5\<close> on a numpy double, the C library's \<^verbatim>\<open>pow(a, 0.5)\<close>: NaN for a negative
  finite base, positive infinity for either infinity, positive zero for either zero.
\<close>

fun fpow_half :: "fl \<Rightarrow> fl" where
  "fpow_half (Fin x) = (if x < 0 then NaN else Fin (sqrt x))"
| "fpow_half NZero = Fin 0"
| "fpow_half PInf = PInf"
| "fpow_half NInf = PInf"
| "fpow_half NaN = NaN"

text \<open>\<^verbatim>\<open>np.arctan\<close>: the limits \<open>\<plusminus>\<pi>/2\<close> at the infinities.\<close>

fun np_arctan :: "fl \<Rightarrow> fl" where
  "np_arctan (Fin x) = Fin (arctan x)"
| "np_arctan NZero = NZero"
| "np_arctan PInf = Fin (pi / 2)"
| "np_arctan NInf = Fin (- (pi / 2))"
| "np_arctan NaN = NaN"

section \<open>Errors\<close>

text \<open>
  The exceptions the program can raise, with what their messages carry:
  \<^item> \<open>NotEnoughValues expected got\<close> and \<open>TooManyValues expected\<close>: the \<^verbatim>\<open>ValueError\<close>
    of a tuple unpacking;
  \<^item> \<open>AssignMismatch n c\<close>: the \<^verbatim>\<open>ValueError\<close> of numpy's boolean-mask assignment,
    "cannot assign n input values to the c output values where the mask is true";
  \<^item> \<open>IndexError\<close>, \<open>KeyError key\<close>: an index out of range, a missing dictionary key;
  \<^item> \<open>External msg\<close>: anything raised inside an external collaborator.
\<close>

datatype error =
    NotEnoughValues nat nat
  | TooManyValues nat
  | AssignMismatch nat nat
  | IndexError
  | KeyError string
  | External string

text \<open>\<^verbatim>\<open>a, b = xs\<close>\<close>

fun unpack2 :: "'a list \<Rightarrow> error + 'a \<times> 'a" where
  "unpack2 [a, b] = Inr (a, b)"
| "unpack2 [] = Inl (NotEnoughValues 2 0)"
| "unpack2 [a] = Inl (NotEnoughValues 2 1)"
| "unpack2 (a # b # c # xs) = Inl (TooManyValues 2)"

section \<open>The model location (lines 58 to 68)\<close>

text \<open>\<^verbatim>\<open>az = np.arctan(mX/mY) * 180 / np.pi\<close>\<close>

definition azimuth :: "fl \<Rightarrow> fl \<Rightarrow> fl" where
  "azimuth mX mY = fdiv (fmul (np_arctan (fdiv mX mY)) (Fin 180)) (Fin pi)"

text \<open>\<^verbatim>\<open>dist = (mX**2 + mY**2)**0.5\<close>\<close>

definition distance :: "fl \<Rightarrow> fl \<Rightarrow> fl" where
  "distance mX mY = fpow_half (fadd (fpow2 mX) (fpow2 mY))"

text \<open>
  Lines 59 to 65. The forward geodesic computation of \<^verbatim>\<open>pyproj.Geod(ellps='WGS84')\<close> is
  an external library: it is the parameter \<open>fwd\<close>, called with the reference longitude and
  latitude, the azimuth and the distance, and returning the destination longitude and
  latitude (or raising).
\<close>

definition model_lonlat ::
  "(fl \<Rightarrow> fl \<Rightarrow> fl \<Rightarrow> fl \<Rightarrow> error + fl \<times> fl) \<Rightarrow> fl list \<Rightarrow> fl list \<Rightarrow> error + fl \<times> fl" where
  "model_lonlat fwd refPoint parValue =
     (case unpack2 refPoint of
        Inl e \<Rightarrow> Inl e
      | Inr (ref_lon, ref_lat) \<Rightarrow>
          (case unpack2 (take 2 parValue) of
             Inl e \<Rightarrow> Inl e
           | Inr (mX, mY) \<Rightarrow> fwd ref_lon ref_lat (azimuth mX mY) (distance mX mY)))"

text \<open>
  The azimuth the specification asks for, written from its words: the two-argument
  arctangent of the direction vector \<open>(mx, my)\<close>, the angle from the \<open>my\<close> axis (north)
  towards the \<open>mx\<close> axis (east), in degrees, for finite offsets.
\<close>

definition arctan2 :: "real \<Rightarrow> real \<Rightarrow> real" where
  "arctan2 y x =
     (if 0 < x then arctan (y / x)
      else if x < 0 then (if 0 \<le> y then arctan (y / x) + pi else arctan (y / x) - pi)
      else if 0 < y then pi / 2
      else if y < 0 then - (pi / 2)
      else 0)"

definition azimuth_quadrant_aware :: "real \<Rightarrow> real \<Rightarrow> real" where
  "azimuth_quadrant_aware mx my = arctan2 mx my * 180 / pi"

section \<open>Strings and paths\<close>

text \<open>
  Strings are lists of 8-bit characters, read as the code points below 256.
  \<^verbatim>\<open>s.replace(' ', '_')\<close> replaces the space character only.
\<close>

definition replace_space :: "string \<Rightarrow> string" where
  "replace_space s = map (\<lambda>c. if c = CHR '' '' then CHR ''_'' else c) s"

text \<open>The characters \<^verbatim>\<open>str.split()\<close> splits at (Python's \<^verbatim>\<open>str.isspace\<close> below 256).\<close>

definition isspace :: "char \<Rightarrow> bool" where
  "isspace c = (let n = (of_char c :: nat)
                in (9 \<le> n \<and> n \<le> 13) \<or> (28 \<le> n \<and> n \<le> 32) \<or> n = 133 \<or> n = 160)"

text \<open>\<^verbatim>\<open>s.split()\<close>: the maximal runs of non-space characters; \<open>w\<close> is the run being read.\<close>

fun split_from :: "string \<Rightarrow> string \<Rightarrow> string list" where
  "split_from w [] = (if w = [] then [] else [w])"
| "split_from w (c # cs) =
     (if isspace c then (if w = [] then split_from [] cs else w # split_from [] cs)
      else split_from (w @ [c]) cs)"

definition split :: "string \<Rightarrow> string list" where
  "split s = split_from [] s"

text \<open>\<^verbatim>\<open>os.path.dirname\<close> and \<^verbatim>\<open>os.path.join\<close> of two components, on a POSIX system.\<close>

definition rstrip_sep :: "string \<Rightarrow> string" where
  "rstrip_sep s = rev (dropWhile (\<lambda>c. c = CHR ''/'') (rev s))"

definition dirname :: "string \<Rightarrow> string" where
  "dirname p =
     (let head = rev (dropWhile (\<lambda>c. c \<noteq> CHR ''/'') (rev p))
      in if head \<noteq> [] \<and> filter (\<lambda>c. c \<noteq> CHR ''/'') head \<noteq> [] then rstrip_sep head else head)"

definition path_join :: "string \<Rightarrow> string \<Rightarrow> string" where
  "path_join a b =
     (if take 1 b = ''/'' then b
      else if a = [] \<or> last a = CHR ''/'' then a @ b
      else a @ ''/'' @ b)"

section \<open>Arrays\<close>

text \<open>
  A numpy array: its shape and its elements in row-major (C) order, the order in which
  numpy traverses an array whatever its memory layout. In a two-dimensional array of
  shape \<open>[h, w]\<close> the element at row \<open>r\<close>, column \<open>c\<close> is the element \<open>r * w + c\<close>
  (\<open>getitem2\<close>, for \<open>r < h\<close> and \<open>c < w\<close>).
\<close>

record 'a ndarray =
  shape :: "nat list"
  flat :: "'a list"

definition getitem2 :: "'a ndarray \<Rightarrow> nat \<Rightarrow> nat \<Rightarrow> 'a" where
  "getitem2 a r c = flat a ! (r * (shape a ! 1) + c)"

subsection \<open>Single precision\<close>

text \<open>
  The three grids are created with \<^verbatim>\<open>dtype=np.float32\<close>, so a value stored into them is
  converted to IEEE 754 binary32 (24 significant bits, exponents from -126 to 127) by
  rounding to nearest, ties to even; a magnitude that rounds to \<open>2^128\<close> or more becomes an
  infinity, one that rounds to nothing a zero of the same sign.
\<close>

definition round_half_even :: "real \<Rightarrow> int" where
  "round_half_even x =
     (let f = \<lfloor>x\<rfloor>; d = x - of_int f
      in if d < 1 / 2 then f else if 1 / 2 < d then f + 1 else if even f then f else f + 1)"

definition float32 :: "fl \<Rightarrow> fl" where
  "float32 a =
     (case a of
        Fin x \<Rightarrow>
          (if x = 0 then Fin 0
           else
             let e = max \<lfloor>log 2 \<bar>x\<bar>\<rfloor> (- 126);
                 q = 2 powr (of_int e - 23);
                 n = round_half_even (\<bar>x\<bar> / q);
                 r = of_int n * q
             in if 2 ^ 128 \<le> r then inf_s (x < 0)
                else if n = 0 then zero_s (x < 0)
                else Fin (if x < 0 then - r else r))
      | _ \<Rightarrow> a)"

subsection \<open>The grids (lines 89 to 94)\<close>

text \<open>\<^verbatim>\<open>np.zeros((length, width), dtype=np.float32)\<close> and \<^verbatim>\<open>array * scalar\<close>.\<close>

definition np_zeros :: "nat \<Rightarrow> nat \<Rightarrow> fl ndarray" where
  "np_zeros len wid = \<lparr>shape = [len, wid], flat = replicate (len * wid) (Fin 0)\<rparr>"

definition mul_scalar :: "fl ndarray \<Rightarrow> fl \<Rightarrow> fl ndarray" where
  "mul_scalar a s = a\<lparr>flat := map (\<lambda>x. float32 (fmul x s)) (flat a)\<rparr>"

text \<open>\<^verbatim>\<open>mask != 0\<close>: true for every element that is not a zero, NaN included.\<close>

definition ne_zero :: "fl ndarray \<Rightarrow> bool ndarray" where
  "ne_zero m = \<lparr>shape = shape m, flat = map (\<lambda>x. \<not> is_zero x) (flat m)\<rparr>"

text \<open>
  The copy loop of a boolean-mask assignment: the elements of the mask and of the
  destination are walked together in row-major order; at each true position the next
  input value, \<open>v ! (k * stride)\<close>, is stored (converted to the destination's type),
  \<open>k\<close> counting the true positions passed so far. The check of the sizes in
  \<open>setitem_mask\<close> keeps the index within \<open>v\<close>.
\<close>

fun put_masked :: "bool list \<Rightarrow> fl list \<Rightarrow> fl list \<Rightarrow> nat \<Rightarrow> nat \<Rightarrow> fl list" where
  "put_masked [] ds v stride k = ds"
| "put_masked (b # bs) [] v stride k = []"
| "put_masked (b # bs) (d # ds) v stride k =
     (if b then float32 (v ! (k * stride)) # put_masked bs ds v stride (Suc k)
      else d # put_masked bs ds v stride k)"

text \<open>
  \<^verbatim>\<open>a[b] = v\<close> for a boolean array \<open>b\<close> and a one-dimensional \<open>v\<close>, as numpy does it:
  \<open>b\<close> must have the shape of \<open>a\<close>; unless \<open>v\<close> has exactly one element, its length must
  be the number of true elements of \<open>b\<close>, or a \<^verbatim>\<open>ValueError\<close> naming both counts is raised;
  a \<open>v\<close> of one element is broadcast (read with stride 0) to every true position.
\<close>

definition setitem_mask :: "fl ndarray \<Rightarrow> bool ndarray \<Rightarrow> fl list \<Rightarrow> error + fl ndarray" where
  "setitem_mask a b v =
     (if shape b \<noteq> shape a then Inl IndexError
      else
        let size = length (filter (\<lambda>t. t) (flat b))
        in if length v \<noteq> 1
           then (if size \<noteq> length v then Inl (AssignMismatch (length v) size)
                 else Inr (a\<lparr>flat := put_masked (flat b) (flat a) v 1 0\<rparr>))
           else Inr (a\<lparr>flat := put_masked (flat b) (flat a) v 0 0\<rparr>))"

text \<open>Lines 89 and 92 (and 90 and 93, 91 and 94) for one value vector.\<close>

definition reconstruct :: "fl ndarray \<Rightarrow> nat \<Rightarrow> nat \<Rightarrow> fl list \<Rightarrow> error + fl ndarray" where
  "reconstruct msk len wid v = setitem_mask (mul_scalar (np_zeros len wid) NaN) (ne_zero msk) v"

section \<open>The input records\<close>

text \<open>
  What \<^verbatim>\<open>scipy.io.loadmat\<close> hands to the program, as typed records: reading the
  container is an external collaborator. An array is a list. (The program loads with
  \<^verbatim>\<open>squeeze_me=True\<close>, so an array of exactly one element reaches it as a scalar; in a
  boolean-mask assignment numpy treats a scalar and an array of one element alike, and a
  value vector of length one stands for both.)
  \<^item> \<open>insarPlot\<close>: an element of \<^verbatim>\<open>mat['insarPlot']\<close>; \<open>minHeight\<close> is \<open>None\<close> when the
    element has no such field.
  \<^item> \<open>mat\<close>: the inversion file; \<open>insar\<close> holds the \<^verbatim>\<open>dataPath\<close> of each element of
    \<^verbatim>\<open>mat['insar']\<close>, \<open>optimalmodel\<close> and \<open>parName\<close> are the two fields read from
    \<^verbatim>\<open>mat['invResults']\<close>, \<open>referencePoint\<close> the one read from \<^verbatim>\<open>mat['geo']\<close>.
  \<^item> \<open>datafile\<close>: a data file, with its \<^verbatim>\<open>Mask\<close> and the attribute dictionary of its
    \<^verbatim>\<open>Metadata\<close> (\<^verbatim>\<open>vars(...)\<close>, which holds the key \<^verbatim>\<open>_fieldnames\<close> scipy adds).
\<close>

datatype pyval = Str string | Float fl

record insarPlot =
  name :: string
  data :: "fl list"
  model :: "fl list"
  residual :: "fl list"
  minHeight :: "fl option"

record mat =
  insar :: "string list"
  insarPlots :: "insarPlot list"
  optimalmodel :: "fl list"
  parName :: "string list"
  referencePoint :: "fl list"

record datafile =
  Mask :: "fl ndarray"
  Metadata :: "(string \<times> pyval) list"

section \<open>Dictionaries\<close>

text \<open>
  A Python dictionary is an association list with distinct keys, in insertion order:
  \<^verbatim>\<open>d[k] = v\<close> is \<^const>\<open>AList.update\<close> (the value is replaced where the key is, or the
  pair is added at the end), a lookup is \<^const>\<open>map_of\<close>.
\<close>

text \<open>\<^verbatim>\<open>d.pop(k)\<close>, for the dictionary left behind.\<close>

definition pop_key :: "string \<Rightarrow> (string \<times> 'v) list \<Rightarrow> error + (string \<times> 'v) list" where
  "pop_key k d = (case map_of d k of None \<Rightarrow> Inl (KeyError k) | Some v \<Rightarrow> Inr (AList.delete k d))"

section \<open>The optimal model parameters (lines 50 to 56)\<close>

text \<open>One round of the loop of line 54, for the index \<open>i\<close>.\<close>

definition mDict_step ::
  "fl list \<Rightarrow> string list \<Rightarrow> nat \<Rightarrow> (string \<times> fl) list \<Rightarrow> error + (string \<times> fl) list" where
  "mDict_step parValue names i mDict =
     (if i < length names
      then Inr (AList.update (replace_space (names ! i)) (parValue ! i) mDict)
      else Inl IndexError)"

fun mDict_loop ::
  "fl list \<Rightarrow> string list \<Rightarrow> nat list \<Rightarrow> (string \<times> fl) list \<Rightarrow> error + (string \<times> fl) list" where
  "mDict_loop parValue names [] mDict = Inr mDict"
| "mDict_loop parValue names (i # is) mDict =
     (case mDict_step parValue names i mDict of
        Inl e \<Rightarrow> Inl e
      | Inr mDict' \<Rightarrow> mDict_loop parValue names is mDict')"

definition grab_model :: "fl list \<Rightarrow> string list \<Rightarrow> error + (string \<times> fl) list" where
  "grab_model parValue names = mDict_loop parValue names [0..<length parValue] []"

text \<open>Line 66: \<^verbatim>\<open>modelName = parName[0].split()[0]\<close>\<close>

definition model_name :: "string list \<Rightarrow> error + string" where
  "model_name names =
     (case names of
        [] \<Rightarrow> Inl IndexError
      | n # _ \<Rightarrow> (case split n of [] \<Rightarrow> Inl IndexError | w # _ \<Rightarrow> Inr w))"

text \<open>
  Lines 50 to 68: the dictionary of the model parameters, with the two keys of the
  model's location added last.
\<close>

definition model_dict ::
  "(fl \<Rightarrow> fl \<Rightarrow> fl \<Rightarrow> fl \<Rightarrow> error + fl \<times> fl) \<Rightarrow> mat \<Rightarrow> error + (string \<times> fl) list" where
  "model_dict fwd m =
     (case grab_model (optimalmodel m) (parName m) of
        Inl e \<Rightarrow> Inl e
      | Inr mDict \<Rightarrow>
          (case model_lonlat fwd (referencePoint m) (optimalmodel m) of
             Inl e \<Rightarrow> Inl e
           | Inr (mLon, mLat) \<Rightarrow>
               (case model_name (parName m) of
                  Inl e \<Rightarrow> Inl e
                | Inr modelName \<Rightarrow>
                    Inr (AList.update (modelName @ ''_longitude'') mLon
                          (AList.update (modelName @ ''_latitude'') mLat mDict)))))"

section \<open>The metadata (lines 96 to 105)\<close>

definition prepare_metadata ::
  "(string \<times> pyval) list \<Rightarrow> insarPlot \<Rightarrow> (string \<times> fl) list \<Rightarrow> error + (string \<times> pyval) list" where
  "prepare_metadata fmeta p mDict =
     (case pop_key ''_fieldnames'' fmeta of
        Inl e \<Rightarrow> Inl e
      | Inr m0 \<Rightarrow>
          let m1 = AList.update ''UNIT'' (Str ''m'') m0;
              m2 = AList.update ''FILE_TYPE'' (Str ''displacement'') m1;
              m3 = AList.update ''PROCESSOR'' (Str ''isce'') m2;
              m4 = (case minHeight p of
                      None \<Rightarrow> m3
                    | Some h \<Rightarrow> AList.update ''MODEL_MIN_HEIGHT'' (Float h) m3)
          in Inr (fold (\<lambda>(key, val). AList.update key (Float val)) mDict m4))"

section \<open>One output file (lines 76 to 111)\<close>

text \<open>
  Everything the loop body computes before it writes, for the index \<open>i\<close>: the three
  grids under their dataset names, the output file name and the metadata. \<open>load\<close> is
  \<^verbatim>\<open>sio.loadmat\<close> on a data file, called at lines 81 and 97.
\<close>

definition output_record ::
  "(string \<Rightarrow> error + datafile) \<Rightarrow> string \<Rightarrow> mat \<Rightarrow> (string \<times> fl) list \<Rightarrow> nat \<Rightarrow>
     error + (string \<times> fl ndarray) list \<times> string \<times> (string \<times> pyval) list" where
  "output_record load out_dir m mDict i =
     (case load (insar m ! i) of
        Inl e \<Rightarrow> Inl e
      | Inr df \<Rightarrow>
     (case unpack2 (shape (Mask df)) of
        Inl e \<Rightarrow> Inl e
      | Inr (len, wid) \<Rightarrow>
     (if length (insarPlots m) \<le> i then Inl IndexError
      else
        let p = insarPlots m ! i;
            out_file = path_join out_dir (name p @ ''.h5'')
        in
     (case reconstruct (Mask df) len wid (data p) of
        Inl e \<Rightarrow> Inl e
      | Inr dat \<Rightarrow>
     (case reconstruct (Mask df) len wid (model p) of
        Inl e \<Rightarrow> Inl e
      | Inr mdl \<Rightarrow>
     (case reconstruct (Mask df) len wid (residual p) of
        Inl e \<Rightarrow> Inl e
      | Inr res \<Rightarrow>
     (case load (insar m ! i) of
        Inl e \<Rightarrow> Inl e
      | Inr df' \<Rightarrow>
     (case prepare_metadata (Metadata df') p mDict of
        Inl e \<Rightarrow> Inl e
      | Inr meta \<Rightarrow>
          Inr ([(''data'', dat), (''model'', mdl), (''residual'', res)], out_file, meta)))))))))"

section \<open>The conversion (lines 40 to 128)\<close>

text \<open>
  The conversion returns the list of output file names, or the error it raised, together
  with the state of the file system it leaves. What it prints is not modelled. The
  external collaborators of the conversion:
  \<^item> \<open>loadmat\<close>, \<open>loadmat_data\<close>: \<^verbatim>\<open>sio.loadmat\<close> on the inversion file and on a data file;
  \<^item> \<open>geod_fwd\<close>: \<^verbatim>\<open>pyproj.Geod(ellps='WGS84').fwd\<close>;
  \<^item> \<open>writefile_write\<close>: \<^verbatim>\<open>mintpy.utils.writefile.write\<close>, acting on the state \<open>'w\<close> of the
    file system, which it returns with the error it raised, if any;
  \<^item> \<open>plt_subplots\<close> (line 72, given the number of files), \<open>plt_panels\<close> (lines 116 to 120,
    given the index, the number of files, the grids and the name) and \<open>plt_show\<close> (lines
    124 to 127): the matplotlib calls of the display, which can only raise;
  \<^item> \<open>os_abspath\<close>: \<^verbatim>\<open>os.path.abspath\<close>, which depends on the working directory.
\<close>

record 'w env =
  loadmat :: "string \<Rightarrow> error + mat"
  loadmat_data :: "string \<Rightarrow> error + datafile"
  geod_fwd :: "fl \<Rightarrow> fl \<Rightarrow> fl \<Rightarrow> fl \<Rightarrow> error + fl \<times> fl"
  writefile_write ::
    "(string \<times> fl ndarray) list \<Rightarrow> string \<Rightarrow> (string \<times> pyval) list \<Rightarrow> 'w \<Rightarrow> error option \<times> 'w"
  plt_subplots :: "nat \<Rightarrow> error option"
  plt_panels :: "nat \<Rightarrow> nat \<Rightarrow> (string \<times> fl ndarray) list \<Rightarrow> string \<Rightarrow> error option"
  plt_show :: "error option"
  os_abspath :: "string \<Rightarrow> string"

text \<open>The body of the loop of line 75: the result is the output file name.\<close>

definition process_file ::
  "'w env \<Rightarrow> string \<Rightarrow> mat \<Rightarrow> (string \<times> fl) list \<Rightarrow> bool \<Rightarrow> nat \<Rightarrow> 'w \<Rightarrow> (error + string) \<times> 'w" where
  "process_file env out_dir m mDict display i w =
     (case output_record (loadmat_data env) out_dir m mDict i of
        Inl e \<Rightarrow> (Inl e, w)
      | Inr (dsDict, out_file, meta) \<Rightarrow>
          (case writefile_write env dsDict out_file meta w of
             (Some e, w') \<Rightarrow> (Inl e, w')
           | (None, w') \<Rightarrow>
               (case (if display
                      then plt_panels env i (length (insar m)) dsDict (name (insarPlots m ! i))
                      else None) of
                  Some e \<Rightarrow> (Inl e, w')
                | None \<Rightarrow> (Inr out_file, w'))))"

fun process_files ::
  "'w env \<Rightarrow> string \<Rightarrow> mat \<Rightarrow> (string \<times> fl) list \<Rightarrow> bool \<Rightarrow> nat list \<Rightarrow> string list \<Rightarrow> 'w \<Rightarrow>
     (error + string list) \<times> 'w" where
  "process_files env out_dir m mDict display [] out_files w = (Inr out_files, w)"
| "process_files env out_dir m mDict display (i # is) out_files w =
     (case process_file env out_dir m mDict display i w of
        (Inl e, w') \<Rightarrow> (Inl e, w')
      | (Inr out_file, w') \<Rightarrow>
          process_files env out_dir m mDict display is (out_files @ [out_file]) w')"

definition gbis_mat2hdf5 :: "'w env \<Rightarrow> string \<Rightarrow> bool \<Rightarrow> 'w \<Rightarrow> (error + string list) \<times> 'w" where
  "gbis_mat2hdf5 env mat_file display w =
     (let out_dir = dirname mat_file
      in case loadmat env mat_file of
           Inl e \<Rightarrow> (Inl e, w)
         | Inr m \<Rightarrow>
      (case model_dict (geod_fwd env) m of
           Inl e \<Rightarrow> (Inl e, w)
         | Inr mDict \<Rightarrow>
      (case (if display then plt_subplots env (length (insar m)) else None) of
           Some e \<Rightarrow> (Inl e, w)
         | None \<Rightarrow>
      (case process_files env out_dir m mDict display [0..<length (insar m)] [] w of
           (Inl e, w') \<Rightarrow> (Inl e, w')
         | (Inr out_files, w') \<Rightarrow>
             (case (if display then plt_show env else None) of
                Some e \<Rightarrow> (Inl e, w')
              | None \<Rightarrow> (Inr out_files, w'))))))"

section \<open>The command line (lines 22 to 37 and 132 to 137)\<close>

text \<open>
  The namespace \<^verbatim>\<open>argparse\<close> returns: the input file (\<open>infile\<close>, the source's
  \<^verbatim>\<open>file\<close>), the \<^verbatim>\<open>--output\<close> name if one was given, and the display flag.
  \<^verbatim>\<open>cmd_line_parse\<close> makes the input path absolute; \<^verbatim>\<open>main\<close> passes the path and the
  display flag on and nothing else.
\<close>

record inps =
  infile :: string
  outfile :: "string option"
  disp_fig :: bool

definition cmd_line_parse :: "'w env \<Rightarrow> inps \<Rightarrow> inps" where
  "cmd_line_parse env args = args\<lparr>infile := os_abspath env (infile args)\<rparr>"

definition main :: "'w env \<Rightarrow> inps \<Rightarrow> 'w \<Rightarrow> (error + string list) \<times> 'w" where
  "main env args w =
     (let inps = cmd_line_parse env args
      in gbis_mat2hdf5 env (infile inps) (disp_fig inps) w)"

text \<open>
  A writer that only records what it is handed, in order: the file name, the datasets and
  the metadata of each call.
\<close>

definition record_write ::
  "(string \<times> fl ndarray) list \<Rightarrow> string \<Rightarrow> (string \<times> pyval) list \<Rightarrow>
     (string \<times> (string \<times> fl ndarray) list \<times> (string \<times> pyval) list) list \<Rightarrow>
     error option \<times> (string \<times> (string \<times> fl ndarray) list \<times> (string \<times> pyval) list) list" where
  "record_write dsDict out_file meta written = (None, written @ [(out_file, dsDict, meta)])"

section \<open>Notions used to state the properties\<close>

text \<open>
  \<^verbatim>\<open>np.count_nonzero(mask)\<close>, and the positions of the non-zero elements of a
  two-dimensional array in row-major order (\<^verbatim>\<open>np.argwhere(mask)\<close>): row by row, each row
  from left to right.
\<close>

definition count_nonzero :: "fl ndarray \<Rightarrow> nat" where
  "count_nonzero m = length (filter (\<lambda>x. \<not> is_zero x) (flat m))"

definition nonzero :: "fl ndarray \<Rightarrow> (nat \<times> nat) list" where
  "nonzero m =
     filter (\<lambda>(r, c). \<not> is_zero (getitem2 m r c))
       (List.product [0..<shape m ! 0] [0..<shape m ! 1])"


section \<open>Example inputs\<close>

text \<open>
  A small inversion result with two interferograms and three model parameters, a data
  file whose mask is 2 by 2 with two valid pixels, and stand-ins for the external
  collaborators: a loader that returns these records whatever the path, a geodesic
  computation that returns the reference point, the recording writer, a display that never
  raises, and a working directory \<^verbatim>\<open>/gbis\<close>.
\<close>

definition ex_plot :: insarPlot where
  "ex_plot = \<lparr>name = ''T100_asc'', data = [Fin 1, Fin 2], model = [Fin 1, Fin 1],
               residual = [Fin 0, Fin 1], minHeight = Some (Fin 5)\<rparr>"

definition ex_plot2 :: insarPlot where
  "ex_plot2 = \<lparr>name = ''T107_dsc'', data = [Fin 2, Fin 1], model = [Fin 2, Fin 2],
                residual = [Fin 0, Fin 1], minHeight = None\<rparr>"

definition ex_datafile :: datafile where
  "ex_datafile = \<lparr>Mask = \<lparr>shape = [2, 2], flat = [Fin 1, Fin 0, Fin 0, Fin 1]\<rparr>,
                   Metadata = [(''_fieldnames'', Str ''WIDTH''), (''WIDTH'', Float (Fin 2))]\<rparr>"

definition ex_mat :: mat where
  "ex_mat = \<lparr>insar = [''/gbis/T100_asc.mat'', ''/gbis/T107_dsc.mat''],
              insarPlots = [ex_plot, ex_plot2],
              optimalmodel = [Fin 3, Fin 4, Fin 5],
              parName = [''MOGI X'', ''MOGI Y'', ''MOGI depth''],
              referencePoint = [Fin 10, Fin 20]\<rparr>"

definition ex_env ::
  "mat \<Rightarrow> (string \<times> (string \<times> fl ndarray) list \<times> (string \<times> pyval) list) list env" where
  "ex_env m = \<lparr>loadmat = (\<lambda>f. Inr m), loadmat_data = (\<lambda>f. Inr ex_datafile),
                geod_fwd = (\<lambda>lon lat az dist. Inr (lon, lat)),
                writefile_write = record_write,
                plt_subplots = (\<lambda>n. None), plt_panels = (\<lambda>i n ds l. None), plt_show = None,
                os_abspath = (\<lambda>p. ''/gbis/'' @ p)\<rparr>"

text \<open>A geodesic stand-in that returns the azimuth and the distance it is called with.\<close>

definition echo_fwd :: "fl \<Rightarrow> fl \<Rightarrow> fl \<Rightarrow> fl \<Rightarrow> error + fl \<times> fl" where
  "echo_fwd lon lat az distance_m = Inr (az, distance_m)"

definition ex_args :: inps where
  "ex_args = \<lparr>infile = ''invert_1_2_C.mat'', outfile = Some ''model.h5'', disp_fig = False\<rparr>"


text \<open>The same inversion result with two names that differ only by a space.\<close>

definition dup_mat :: mat where
  "dup_mat = ex_mat\<lparr>parName := [''MOGI X'', ''MOGI_X'', ''MOGI depth'']\<rparr>"

text \<open>The datasets of the two output files of the example.\<close>

definition ex_grids :: "(string \<times> fl ndarray) list" where
  "ex_grids = [(''data'', \<lparr>shape = [2, 2], flat = [Fin 1, NaN, NaN, Fin 2]\<rparr>),
               (''model'', \<lparr>shape = [2, 2], flat = [Fin 1, NaN, NaN, Fin 1]\<rparr>),
               (''residual'', \<lparr>shape = [2, 2], flat = [Fin 0, NaN, NaN, Fin 1]\<rparr>)]"

definition ex_grids2 :: "(string \<times> fl ndarray) list" where
  "ex_grids2 = [(''data'', \<lparr>shape = [2, 2], flat = [Fin 2, NaN, NaN, Fin 1]\<rparr>),
                (''model'', \<lparr>shape = [2, 2], flat = [Fin 2, NaN, NaN, Fin 2]\<rparr>),
                (''residual'', \<lparr>shape = [2, 2], flat = [Fin 0, NaN, NaN, Fin 1]\<rparr>)]"

text \<open>What the conversion of the example writes.\<close>

definition ex_written ::
  "(string \<times> (string \<times> fl ndarray) list \<times> (string \<times> pyval) list) list" where
  "ex_written =
     [(''/gbis/T100_asc.h5'', ex_grids,
       [(''WIDTH'', Float (Fin 2)), (''UNIT'', Str ''m''),
        (''FILE_TYPE'', Str ''displacement''), (''PROCESSOR'', Str ''isce''),
        (''MODEL_MIN_HEIGHT'', Float (Fin 5)), (''MOGI_X'', Float (Fin 3)),
        (''MOGI_Y'', Float (Fin 4)), (''MOGI_depth'', Float (Fin 5)),
        (''MOGI_latitude'', Float (Fin 20)), (''MOGI_longitude'', Float (Fin 10))]),
      (''/gbis/T107_dsc.h5'', ex_grids2,
       [(''WIDTH'', Float (Fin 2)), (''UNIT'', Str ''m''),
        (''FILE_TYPE'', Str ''displacement''), (''PROCESSOR'', Str ''isce''),
        (''MOGI_X'', Float (Fin 3)), (''MOGI_Y'', Float (Fin 4)),
        (''MOGI_depth'', Float (Fin 5)), (''MOGI_latitude'', Float (Fin 20)),
        (''MOGI_longitude'', Float (Fin 10))])]"

section \<open>The model location: azimuth and distance\<close>

lemma distance_finite: "distance (Fin mx) (Fin my) = Fin (sqrt (mx\<^sup>2 + my\<^sup>2))"
  by (auto simp add: distance_def fpow2_def fmul_def fadd_def zero_s_def power2_eq_square
      not_sum_squares_lt_zero)

lemma azimuth_finite:
  "my \<noteq> 0 \<Longrightarrow> mx \<noteq> 0 \<Longrightarrow> azimuth (Fin mx) (Fin my) = Fin (arctan (mx / my) * 180 / pi)"
  by (simp add: azimuth_def fdiv_def fmul_def zero_s_def arctan_eq_zero_iff)

text \<open>
  North of the reference point (\<open>my > 0\<close>) the azimuth of the program is the
  quadrant-aware one; south of it (\<open>my < 0\<close>) it is off by half a turn.
\<close>

lemma azimuth_north:
  "0 < my \<Longrightarrow> mx \<noteq> 0 \<Longrightarrow> azimuth (Fin mx) (Fin my) = Fin (azimuth_quadrant_aware mx my)"
  by (simp add: azimuth_finite azimuth_quadrant_aware_def arctan2_def)

lemma azimuth_south:
  "my < 0 \<Longrightarrow> mx \<noteq> 0 \<Longrightarrow>
     azimuth (Fin mx) (Fin my) =
       Fin (azimuth_quadrant_aware mx my + (if 0 < mx then - 180 else 180))"
  by (simp add: azimuth_finite azimuth_quadrant_aware_def arctan2_def field_simps)

text \<open>
  C1. The distance handed to the forward geodesic computation is \<open>sqrt (mx^2 + my^2)\<close>, but
  the azimuth is the one-argument arctangent of \<open>mx / my\<close>, not a quadrant-aware
  two-argument arctangent: for the offsets \<open>mx = my = -1000\<close> (south-west of the reference
  point, quadrant-aware azimuth -135 degrees) the program calls the geodesic with the
  azimuth 45 degrees (north-east).
\<close>

theorem azimuth_third_quadrant:
  "model_lonlat fwd [lon, lat] [Fin (- 1000), Fin (- 1000)]
     = fwd lon lat (Fin 45) (Fin (sqrt 2000000))
   \<and> azimuth (Fin (- 1000)) (Fin (- 1000)) = Fin 45
   \<and> azimuth_quadrant_aware (- 1000) (- 1000) = - 135"
  by (simp add: model_lonlat_def distance_finite azimuth_finite arctan_one
      azimuth_quadrant_aware_def arctan2_def)

text \<open>
  C10, as the program has it. When \<open>my\<close> is a zero (of either sign) the quotient
  \<open>mx / my\<close> is computed without a guard and nothing is raised: the quotient is not finite.
  The azimuth is NaN exactly when \<open>mx\<close> is a zero or NaN; for every other \<open>mx\<close> the
  arctangent of the infinite quotient is finite and the azimuth is 90 or -90 degrees. In
  every case the azimuth goes to the forward geodesic computation, whose result is the
  model location.
\<close>

theorem azimuth_zero_divisor:
  "is_zero mY \<Longrightarrow>
     \<not> is_finite (fdiv mX mY) \<and>
     (azimuth mX mY = NaN \<longleftrightarrow> is_zero mX \<or> mX = NaN) \<and>
     (is_zero mX \<or> mX = NaN \<or> azimuth mX mY = Fin 90 \<or> azimuth mX mY = Fin (- 90)) \<and>
     model_lonlat fwd [lon, lat] (mX # mY # rest) = fwd lon lat (azimuth mX mY) (distance mX mY)"
  by (cases mY; cases mX) (auto simp: azimuth_def fdiv_def fmul_def inf_s_def model_lonlat_def)

theorem azimuth_zero_divisor_witness:
  "is_zero NZero \<and> \<not> is_finite (fdiv (Fin 1) NZero) \<and> azimuth (Fin 1) NZero = Fin (- 90)"
  using azimuth_zero_divisor [of NZero "Fin 1"]
  by (simp add: azimuth_def fdiv_def fmul_def inf_s_def)

text \<open>
  C10 as stated fails for \<open>mx = 1\<close>, \<open>my = 0\<close>: the azimuth is the finite value 90 degrees,
  and that is what the geodesic computation is called with.
\<close>

theorem azimuth_zero_divisor_finite:
  "is_zero (Fin 0) \<and> azimuth (Fin 1) (Fin 0) = Fin 90 \<and> is_finite (azimuth (Fin 1) (Fin 0)) \<and>
   model_lonlat echo_fwd [Fin 10, Fin 20] [Fin 1, Fin 0] = Inr (Fin 90, Fin 1)"
  by (simp add: azimuth_def fdiv_def fmul_def inf_s_def model_lonlat_def distance_finite
      echo_fwd_def)

section \<open>Too few model parameters\<close>







section \<open>The grids\<close>

subsection \<open>Single precision at concrete values\<close>

lemma float32_special [simp]:
  "float32 NaN = NaN" "float32 PInf = PInf" "float32 NInf = NInf" "float32 NZero = NZero"
  "float32 (Fin 0) = Fin 0"
  by (simp_all add: float32_def)

lemma float32_1: "float32 (Fin 1) = Fin 1"
  by (simp add: float32_def round_half_even_def powr_minus Let_def)

lemma float32_2: "float32 (Fin 2) = Fin 2"
  by (simp add: float32_def round_half_even_def powr_minus Let_def)

lemma floor_log2_16777217: "\<lfloor>log 2 16777217\<rfloor> = 24"
  by (subst floor_log_eq_powr_iff) simp_all

text \<open>\<open>2^24 + 1\<close> lies halfway between two single-precision numbers and goes to the even one.\<close>

lemma float32_16777217: "float32 (Fin 16777217) = Fin 16777216"
  by (simp add: float32_def round_half_even_def floor_log2_16777217 Let_def)

subsection \<open>The copy loop\<close>

lemma length_put_masked:
  "length bs = length ds \<Longrightarrow> length (put_masked bs ds v stride k) = length ds"
  by (induction bs ds v stride k rule: put_masked.induct) auto

text \<open>
  The element stored at a true position is the input value whose index is the number of
  true positions before it.
\<close>

lemma put_masked_nth:
  "length bs = length ds \<Longrightarrow> p < length bs \<Longrightarrow>
     put_masked bs ds v stride k ! p =
       (if bs ! p then float32 (v ! ((k + length (filter (\<lambda>t. t) (take p bs))) * stride))
        else ds ! p)"
proof (induction bs ds v stride k arbitrary: p rule: put_masked.induct)
  case (3 b bs d ds v stride k)
  then show ?case by (cases p) auto
qed auto

lemma count_take_upt:
  assumes "p \<le> length bs"
  shows "length (filter (\<lambda>t. t) (take p bs)) = length (filter (\<lambda>i. bs ! i) [0..<p])"
proof -
  have "take p bs = map (\<lambda>i. bs ! i) [0..<p]"
    using assms by (simp add: list_eq_iff_nth_eq)
  then show ?thesis by (simp add: filter_map comp_def)
qed

text \<open>Row-major order: the positions of a grid, row by row, are its flat indices in order.\<close>

lemma product_row_major:
  "map (\<lambda>(r, c). r * W + c) (List.product [0..<H] [0..<W]) = [0..<H * W]"
proof (induction H)
  case 0
  then show ?case by simp
next
  case (Suc H)
  have a: "map (\<lambda>c. H * W + c) [0..<W] = [H * W..<H * W + W]"
    by (simp add: map_add_upt add.commute)
  have b: "[0..<H * W + W] = [0..<H * W] @ [H * W..<H * W + W]"
    by (rule upt_add_eq_append) simp
  have "map (\<lambda>(r, c). r * W + c) (List.product [0..<Suc H] [0..<W])
          = map (\<lambda>(r, c). r * W + c) (List.product [0..<H] [0..<W])
            @ map (\<lambda>c. H * W + c) [0..<W]"
    by (simp add: product_concat_map comp_def)
  also have "\<dots> = [0..<H * W] @ [H * W..<H * W + W]"
    by (simp only: Suc a)
  also have "\<dots> = [0..<H * W + W]"
    by (simp only: b)
  also have "H * W + W = Suc H * W"
    by simp
  finally show ?case .
qed

text \<open>The \<open>k\<close>-th index that satisfies \<open>P\<close> has exactly \<open>k\<close> such indices before it.\<close>

lemma rank_of_kth:
  assumes "k < length (filter P [0..<n])"
  shows "length (filter P [0..<filter P [0..<n] ! k]) = k"
proof -
  define nz where "nz = filter P [0..<n]"
  define p where "p = nz ! k"
  have k: "k < length nz" using assms by (simp add: nz_def)
  then have "p \<in> set nz" unfolding p_def by (rule nth_mem)
  then have pn: "p < n" and Pp: "P p" by (auto simp: nz_def)
  have "[0..<n] = [0..<p] @ p # [Suc p..<n]"
    using pn by (metis le_add_diff_inverse less_imp_le_nat upt_add_eq_append upt_conv_Cons zero_le)
  then have parts: "nz = filter P [0..<p] @ p # filter P [Suc p..<n]"
    using Pp by (simp add: nz_def)
  have "nz ! length (filter P [0..<p])
          = (filter P [0..<p] @ p # filter P [Suc p..<n]) ! length (filter P [0..<p])"
    by (rule arg_cong [where f = "\<lambda>xs. xs ! length (filter P [0..<p])", OF parts])
  also have "\<dots> = p"
    by (rule nth_append_length)
  finally have "nz ! length (filter P [0..<p]) = nz ! k"
    by (simp add: p_def)
  moreover have "length (filter P [0..<p]) < length nz"
  proof -
    have "length nz = length (filter P [0..<p] @ p # filter P [Suc p..<n])"
      by (rule arg_cong [where f = length, OF parts])
    then show ?thesis by simp
  qed
  moreover have "distinct nz" by (simp add: nz_def)
  ultimately have "length (filter P [0..<p]) = k"
    using k by (simp add: nth_eq_iff_index_eq)
  then show ?thesis by (simp add: p_def nz_def)
qed

subsection \<open>One grid\<close>

lemma nan_grid:
  "mul_scalar (np_zeros H W) NaN = \<lparr>shape = [H, W], flat = replicate (H * W) NaN\<rparr>"
  by (simp add: mul_scalar_def np_zeros_def fmul_def)

lemma reconstruct_eq:
  assumes "shape msk = [H, W]"
  shows "reconstruct msk H W v =
    (if length v \<noteq> 1 \<and> count_nonzero msk \<noteq> length v
     then Inl (AssignMismatch (length v) (count_nonzero msk))
     else Inr \<lparr>shape = [H, W],
               flat = put_masked (map (\<lambda>x. \<not> is_zero x) (flat msk)) (replicate (H * W) NaN) v
                        (if length v = 1 then 0 else 1) 0\<rparr>)"
  using assms
  by (simp add: reconstruct_def nan_grid setitem_mask_def ne_zero_def count_nonzero_def
      comp_def Let_def)

lemma reconstruct_cell:
  assumes "shape msk = [H, W]" and "length (flat msk) = H * W"
    and "reconstruct msk H W v = Inr g" and "p < H * W"
  shows "flat g ! p =
           (if is_zero (flat msk ! p) then NaN
            else float32 (v ! (length (filter (\<lambda>i. \<not> is_zero (flat msk ! i)) [0..<p])
                               * (if length v = 1 then 0 else 1))))"
proof -
  let ?bs = "map (\<lambda>x. \<not> is_zero x) (flat msk)"
  have g: "flat g = put_masked ?bs (replicate (H * W) NaN) v (if length v = 1 then 0 else 1) 0"
    using assms(3) by (auto simp: reconstruct_eq [OF assms(1)] split: if_splits)
  have "length (filter (\<lambda>t. t) (take p ?bs)) = length (filter (\<lambda>i. ?bs ! i) [0..<p])"
    using assms(2,4) by (intro count_take_upt) simp
  also have "filter (\<lambda>i. ?bs ! i) [0..<p] = filter (\<lambda>i. \<not> is_zero (flat msk ! i)) [0..<p]"
    using assms(2,4) by (intro filter_cong) auto
  finally have rank: "length (filter (\<lambda>t. t) (take p ?bs))
                        = length (filter (\<lambda>i. \<not> is_zero (flat msk ! i)) [0..<p])" .
  show ?thesis
    using assms(2,4) by (simp add: g put_masked_nth rank)
qed

lemma nonzero_flat:
  assumes "shape msk = [H, W]"
  shows "map (\<lambda>(r, c). r * W + c) (nonzero msk)
           = filter (\<lambda>i. \<not> is_zero (flat msk ! i)) [0..<H * W]"
proof -
  have "filter (\<lambda>i. \<not> is_zero (flat msk ! i))
            (map (\<lambda>(r, c). r * W + c) (List.product [0..<H] [0..<W]))
          = map (\<lambda>(r, c). r * W + c) (nonzero msk)"
    using assms by (simp add: nonzero_def filter_map comp_def getitem2_def case_prod_unfold)
  then show ?thesis by (simp add: product_row_major)
qed

lemma count_nonzero_flat:
  assumes "length (flat msk) = n"
  shows "count_nonzero msk = length (filter (\<lambda>i. \<not> is_zero (flat msk ! i)) [0..<n])"
proof -
  have "flat msk = map (\<lambda>i. flat msk ! i) [0..<n]"
    using assms by (simp add: list_eq_iff_nth_eq)
  then have "filter (\<lambda>x. \<not> is_zero x) (flat msk)
               = map (\<lambda>i. flat msk ! i) (filter (\<lambda>i. \<not> is_zero (flat msk ! i)) [0..<n])"
    by (metis (no_types, lifting) comp_def filter_map filter_cong)
  then show ?thesis by (simp add: count_nonzero_def)
qed

lemma length_nonzero:
  assumes "shape msk = [H, W]" and "length (flat msk) = H * W"
  shows "length (nonzero msk) = count_nonzero msk"
  using arg_cong [OF nonzero_flat [OF assms(1)], of length] count_nonzero_flat [OF assms(2)]
  by simp

subsection \<open>The example mask\<close>

lemma ex_mask:
  "shape (Mask ex_datafile) = [2, 2]" "flat (Mask ex_datafile) = [Fin 1, Fin 0, Fin 0, Fin 1]"
  by (simp_all add: ex_datafile_def)

lemma ex_count: "count_nonzero (Mask ex_datafile) = 2"
  by (simp add: count_nonzero_def ex_mask)

lemma ex_nonzero: "nonzero (Mask ex_datafile) = [(0, 0), (1, 1)]"
  by (simp add: nonzero_def ex_mask getitem2_def upt_rec numeral_2_eq_2)

lemma ex_reconstruct:
  "length v = 2 \<Longrightarrow>
     reconstruct (Mask ex_datafile) 2 2 v
       = Inr \<lparr>shape = [2, 2], flat = [float32 (v ! 0), NaN, NaN, float32 (v ! 1)]\<rparr>"
  by (subst reconstruct_eq [OF ex_mask(1)]) (simp add: ex_count ex_mask(2) numeral_eq_Suc)

lemma ex_reconstruct_one:
  "reconstruct (Mask ex_datafile) 2 2 [x]
       = Inr \<lparr>shape = [2, 2], flat = [float32 x, NaN, NaN, float32 x]\<rparr>"
  by (subst reconstruct_eq [OF ex_mask(1)]) (simp add: ex_count ex_mask(2) numeral_eq_Suc)

subsection \<open>Scattering the values\<close>

text \<open>
  C2, as the program has it. For a mask of shape \<open>(H, W)\<close> and a value sequence whose
  length is the number of non-zero mask elements (each of the three sequences of a
  record), the reconstruction succeeds with a grid of shape \<open>(H, W)\<close>; the grid is
  single-precision, so at the \<open>k\<close>-th non-zero mask position in row-major order it holds the
  \<open>k\<close>-th value rounded to single precision; where the mask is zero it holds NaN.
\<close>

theorem reconstruct_scatter:
  assumes "shape msk = [H, W]" and "length (flat msk) = H * W"
    and "length v = count_nonzero msk"
  shows "\<exists>g. reconstruct msk H W v = Inr g \<and> shape g = [H, W] \<and> length (flat g) = H * W
           \<and> length (nonzero msk) = length v
           \<and> (\<forall>k<length v. getitem2 g (fst (nonzero msk ! k)) (snd (nonzero msk ! k))
                               = float32 (v ! k))
           \<and> (\<forall>r<H. \<forall>c<W. is_zero (getitem2 msk r c) \<longrightarrow> getitem2 g r c = NaN)"
proof -
  define g where "g = \<lparr>shape = [H, W],
       flat = put_masked (map (\<lambda>x. \<not> is_zero x) (flat msk)) (replicate (H * W) NaN) v
                (if length v = 1 then 0 else 1) 0\<rparr>"
  have rec: "reconstruct msk H W v = Inr g"
    using assms(3) by (simp add: reconstruct_eq [OF assms(1)] g_def)
  have sh: "shape g = [H, W]" and len: "length (flat g) = H * W"
    using assms(2) by (simp_all add: g_def length_put_masked)
  have nzlen: "length (nonzero msk) = length v"
    using length_nonzero [OF assms(1,2)] assms(3) by simp
  have idx: "r * W + c < H * W" if "r < H" "c < W" for r c
  proof -
    have "r * W + c < r * W + W" using that by simp
    also have "\<dots> = Suc r * W" by simp
    also have "\<dots> \<le> H * W" using that by (intro mult_le_mono1) simp
    finally show ?thesis .
  qed
  have vals: "getitem2 g (fst (nonzero msk ! k)) (snd (nonzero msk ! k)) = float32 (v ! k)"
    if k: "k < length v" for k
  proof -
    let ?Q = "\<lambda>i. \<not> is_zero (flat msk ! i)"
    let ?nz = "filter ?Q [0..<H * W]"
    obtain r c where rc: "nonzero msk ! k = (r, c)" by (cases "nonzero msk ! k")
    have "map (\<lambda>(r, c). r * W + c) (nonzero msk) ! k = ?nz ! k"
      by (simp only: nonzero_flat [OF assms(1)])
    then have p: "r * W + c = ?nz ! k"
      using k nzlen by (simp add: rc)
    have klen: "k < length ?nz"
      using k nzlen arg_cong [OF nonzero_flat [OF assms(1)], of length] by simp
    then have "?nz ! k \<in> set ?nz" by (rule nth_mem)
    then have pin: "r * W + c < H * W" and nzp: "?Q (r * W + c)" by (auto simp: p)
    have rank: "length (filter ?Q [0..<r * W + c]) = k"
      using rank_of_kth [OF klen] by (simp add: p)
    have stride: "k * (if length v = 1 then 0 else 1) = k"
      using k by (cases "length v = 1") auto
    have "flat g ! (r * W + c) = float32 (v ! (k * (if length v = 1 then 0 else 1)))"
      using reconstruct_cell [OF assms(1,2) rec pin] nzp by (simp add: rank)
    then have "flat g ! (r * W + c) = float32 (v ! k)"
      by (simp only: stride)
    then show ?thesis by (simp add: getitem2_def sh rc)
  qed
  have zeros: "getitem2 g r c = NaN" if "r < H" "c < W" "is_zero (getitem2 msk r c)" for r c
    using reconstruct_cell [OF assms(1,2) rec idx [OF that(1,2)]] that(3)
    by (simp add: getitem2_def sh assms(1))
  show ?thesis using rec sh len nzlen vals zeros by blast
qed

theorem reconstruct_scatter_witness:
  "shape (Mask ex_datafile) = [2, 2] \<and> length (flat (Mask ex_datafile)) = 2 * 2
   \<and> length (data ex_plot) = count_nonzero (Mask ex_datafile)
   \<and> nonzero (Mask ex_datafile) = [(0, 0), (1, 1)]
   \<and> reconstruct (Mask ex_datafile) 2 2 (data ex_plot)
       = Inr \<lparr>shape = [2, 2], flat = [Fin 1, NaN, NaN, Fin 2]\<rparr>"
proof -
  have h: "shape (Mask ex_datafile) = [2, 2]" "length (flat (Mask ex_datafile)) = 2 * 2"
    "length (data ex_plot) = count_nonzero (Mask ex_datafile)"
    by (simp_all add: ex_mask ex_count ex_plot_def)
  have "length (data ex_plot) = 2" by (simp add: ex_plot_def)
  then have "reconstruct (Mask ex_datafile) 2 2 (data ex_plot)
               = Inr \<lparr>shape = [2, 2], flat = [Fin 1, NaN, NaN, Fin 2]\<rparr>"
    by (simp add: ex_reconstruct) (simp add: ex_plot_def float32_1 float32_2)
  with reconstruct_scatter [OF h] h ex_nonzero show ?thesis by simp
qed

text \<open>
  C2 as stated fails for the example mask and the values \<open>[16777217, 1]\<close>, whose length is
  the number of non-zero mask elements: the first non-zero position, row 0 and column 0,
  holds 16777216, not the first value.
\<close>

theorem reconstruct_rounds_to_single:
  "length [Fin 16777217, Fin 1] = count_nonzero (Mask ex_datafile)
   \<and> nonzero (Mask ex_datafile) ! 0 = (0, 0)
   \<and> reconstruct (Mask ex_datafile) 2 2 [Fin 16777217, Fin 1]
       = Inr \<lparr>shape = [2, 2], flat = [Fin 16777216, NaN, NaN, Fin 1]\<rparr>
   \<and> getitem2 \<lparr>shape = [2, 2], flat = [Fin 16777216, NaN, NaN, Fin 1]\<rparr> 0 0
       \<noteq> [Fin 16777217, Fin 1] ! 0"
  by (simp add: ex_count ex_nonzero ex_reconstruct float32_16777217 float32_1 getitem2_def)

subsection \<open>When the assignment fails\<close>

text \<open>
  C3, as the program has it. The reconstruction fails exactly when the value sequence has
  neither one element nor as many elements as the mask has non-zero elements, and the
  error then carries both counts. A sequence of one element never fails: its value is
  broadcast to every non-zero position of the mask.
\<close>

theorem reconstruct_fails_iff:
  assumes "shape msk = [H, W]"
  shows "(reconstruct msk H W v = Inl e \<longleftrightarrow>
            length v \<noteq> 1 \<and> length v \<noteq> count_nonzero msk
            \<and> e = AssignMismatch (length v) (count_nonzero msk))
         \<and> (length v = 1 \<and> length (flat msk) = H * W \<longrightarrow>
              (\<exists>g. reconstruct msk H W v = Inr g
                 \<and> (\<forall>p<H * W. flat g ! p
                                 = (if is_zero (flat msk ! p) then NaN else float32 (v ! 0)))))"
proof -
  have a: "reconstruct msk H W v = Inl e \<longleftrightarrow>
            length v \<noteq> 1 \<and> length v \<noteq> count_nonzero msk
            \<and> e = AssignMismatch (length v) (count_nonzero msk)"
    by (auto simp: reconstruct_eq [OF assms])
  have b: "\<exists>g. reconstruct msk H W v = Inr g
             \<and> (\<forall>p<H * W. flat g ! p
                             = (if is_zero (flat msk ! p) then NaN else float32 (v ! 0)))"
    if "length v = 1" "length (flat msk) = H * W"
  proof -
    have "\<exists>g. reconstruct msk H W v = Inr g"
      using that(1) by (simp add: reconstruct_eq [OF assms])
    then obtain g where g: "reconstruct msk H W v = Inr g" ..
    show ?thesis
      using reconstruct_cell [OF assms that(2) g] that(1) g by auto
  qed
  show ?thesis using a b by blast
qed

theorem reconstruct_fails_iff_witness:
  "shape (Mask ex_datafile) = [2, 2]
   \<and> reconstruct (Mask ex_datafile) 2 2 [Fin 1, Fin 2, Fin 3] = Inl (AssignMismatch 3 2)"
  using reconstruct_fails_iff [of "Mask ex_datafile" 2 2 "[Fin 1, Fin 2, Fin 3]" "AssignMismatch 3 2"]
  by (simp add: ex_mask ex_count)

text \<open>
  C3 as stated fails for the example mask, which has two non-zero elements, and the value
  sequence \<open>[1]\<close>: the lengths differ and nothing is raised; both positions receive 1.
\<close>

theorem reconstruct_broadcasts_one_value:
  "count_nonzero (Mask ex_datafile) = 2 \<and> length [Fin 1] \<noteq> count_nonzero (Mask ex_datafile)
   \<and> reconstruct (Mask ex_datafile) 2 2 [Fin 1]
       = Inr \<lparr>shape = [2, 2], flat = [Fin 1, NaN, NaN, Fin 1]\<rparr>"
  by (simp add: ex_count ex_reconstruct_one float32_1)

section \<open>The dictionary of model parameters\<close>



lemma mDict_loop_distinct:
  "mDict_loop pv names is d = Inr d' \<Longrightarrow> distinct (map fst d) \<Longrightarrow> distinct (map fst d')"
  by (induction "is" arbitrary: d)
     (auto simp: mDict_step_def distinct_update split: sum.splits if_splits)

text \<open>The dictionary the conversion builds has distinct keys, as every dictionary has.\<close>

lemma model_dict_distinct: "model_dict fwd m = Inr mDict \<Longrightarrow> distinct (map fst mDict)"
  by (auto simp: model_dict_def grab_model_def distinct_update
      split: sum.splits dest!: mDict_loop_distinct)



section \<open>The metadata\<close>

lemma map_of_fold_update:
  "map_of (fold (\<lambda>(key, val). AList.update key (f val)) kvs d)
     = map_of d ++ map_of (rev (map (\<lambda>(key, val). (key, f val)) kvs))"
proof (induction kvs arbitrary: d)
  case Nil
  then show ?case by simp
next
  case (Cons kv kvs)
  obtain k v where kv: "kv = (k, v)" by (cases kv)
  show ?case
    by (simp add: kv Cons.IH update_conv' map_add_upd_left flip: map_add_assoc)
       (simp add: map_add_def fun_eq_iff split: option.splits)
qed

lemma map_of_rev_distinct:
  assumes "distinct (map fst xs)"
  shows "map_of (rev xs) = map_of xs"
proof (rule ext)
  fix k
  have d': "distinct (map fst (rev xs))"
    using assms by (simp add: rev_map [symmetric])
  show "map_of (rev xs) k = map_of xs k"
  proof (cases "map_of xs k")
    case None
    then have "k \<notin> fst ` set (rev xs)" by (simp add: map_of_eq_None_iff)
    then have "map_of (rev xs) k = None" by (simp only: map_of_eq_None_iff not_False_eq_True)
    with None show ?thesis by simp
  next
    case (Some v)
    then show ?thesis using assms d' by simp
  qed
qed

text \<open>
  The merged metadata as a map. \<open>m1 ++ m2\<close> is \<open>m1\<close> overridden by \<open>m2\<close>; the model
  parameters are written in the order of the dictionary, a later one over an earlier one.
\<close>

lemma prepare_metadata_lookup:
  assumes "prepare_metadata fmeta p mDict = Inr meta"
  shows "map_of meta =
           (((map_of (AList.delete ''_fieldnames'' fmeta))
               (''UNIT'' \<mapsto> Str ''m'', ''FILE_TYPE'' \<mapsto> Str ''displacement'',
                ''PROCESSOR'' \<mapsto> Str ''isce''))
             ++ (case minHeight p of None \<Rightarrow> Map.empty
                 | Some h \<Rightarrow> [''MODEL_MIN_HEIGHT'' \<mapsto> Float h]))
             ++ map_of (rev (map (\<lambda>(key, val). (key, Float val)) mDict))"
  using assms
  by (auto simp: prepare_metadata_def pop_key_def Let_def map_of_fold_update update_conv'
      split: option.splits)

lemma ex_prepare_metadata:
  "prepare_metadata (Metadata ex_datafile) ex_plot mDict
     = Inr (fold (\<lambda>(key, val). AList.update key (Float val)) mDict
              [(''WIDTH'', Float (Fin 2)), (''UNIT'', Str ''m''),
               (''FILE_TYPE'', Str ''displacement''), (''PROCESSOR'', Str ''isce''),
               (''MODEL_MIN_HEIGHT'', Float (Fin 5))])"
  "prepare_metadata (Metadata ex_datafile) ex_plot2 mDict
     = Inr (fold (\<lambda>(key, val). AList.update key (Float val)) mDict
              [(''WIDTH'', Float (Fin 2)), (''UNIT'', Str ''m''),
               (''FILE_TYPE'', Str ''displacement''), (''PROCESSOR'', Str ''isce'')])"
  by (simp_all add: prepare_metadata_def pop_key_def ex_datafile_def ex_plot_def ex_plot2_def)

text \<open>
  C6. The merged metadata is the file metadata without the bookkeeping key, overridden by
  the fixed tags, then by the minimum height if the record has one, then by the model
  parameters; so a key of the file metadata that is also a key of the model parameters is
  bound to the model parameter's value. (The model parameters are a dictionary: their keys
  are distinct.)
\<close>

theorem metadata_precedence:
  assumes "prepare_metadata fmeta p mDict = Inr meta" and "distinct (map fst mDict)"
  shows "map_of meta =
           (((map_of (AList.delete ''_fieldnames'' fmeta))
               (''UNIT'' \<mapsto> Str ''m'', ''FILE_TYPE'' \<mapsto> Str ''displacement'',
                ''PROCESSOR'' \<mapsto> Str ''isce''))
             ++ (case minHeight p of None \<Rightarrow> Map.empty
                 | Some h \<Rightarrow> [''MODEL_MIN_HEIGHT'' \<mapsto> Float h]))
             ++ (map_option Float \<circ> map_of mDict)
         \<and> (\<forall>key old val. map_of fmeta key = Some old \<and> map_of mDict key = Some val
               \<longrightarrow> map_of meta key = Some (Float val))"
proof -
  have "distinct (map fst (map (\<lambda>(key, val). (key, Float val)) mDict))"
    using assms(2) by (simp add: comp_def case_prod_unfold)
  then have "map_of (rev (map (\<lambda>(key, val). (key, Float val)) mDict))
               = map_of (map (\<lambda>(key, val). (key, Float val)) mDict)"
    by (rule map_of_rev_distinct)
  also have "\<dots> = map_option Float \<circ> map_of mDict"
    by (rule map_of_map)
  finally have r: "map_of (rev (map (\<lambda>(key, val). (key, Float val)) mDict))
                     = map_option Float \<circ> map_of mDict" .
  have a: "map_of meta =
           (((map_of (AList.delete ''_fieldnames'' fmeta))
               (''UNIT'' \<mapsto> Str ''m'', ''FILE_TYPE'' \<mapsto> Str ''displacement'',
                ''PROCESSOR'' \<mapsto> Str ''isce''))
             ++ (case minHeight p of None \<Rightarrow> Map.empty
                 | Some h \<Rightarrow> [''MODEL_MIN_HEIGHT'' \<mapsto> Float h]))
             ++ (map_option Float \<circ> map_of mDict)"
    using prepare_metadata_lookup [OF assms(1)] by (simp only: r)
  have "map_of meta key = Some (Float val)" if "map_of mDict key = Some val" for key val
    using that by (subst a) (simp add: map_add_Some_iff)
  with a show ?thesis by blast
qed

theorem metadata_precedence_witness:
  "prepare_metadata [(''_fieldnames'', Str ''MOGI_X''), (''MOGI_X'', Float (Fin 0))] ex_plot
       [(''MOGI_X'', Fin 3)]
     = Inr [(''MOGI_X'', Float (Fin 3)), (''UNIT'', Str ''m''),
            (''FILE_TYPE'', Str ''displacement''), (''PROCESSOR'', Str ''isce''),
            (''MODEL_MIN_HEIGHT'', Float (Fin 5))]
   \<and> distinct (map fst [(''MOGI_X'', Fin 3)])
   \<and> map_of [(''_fieldnames'', Str ''MOGI_X''), (''MOGI_X'', Float (Fin 0))] ''MOGI_X''
       = Some (Float (Fin 0))
   \<and> map_of [(''MOGI_X'', Float (Fin 3)), (''UNIT'', Str ''m''),
            (''FILE_TYPE'', Str ''displacement''), (''PROCESSOR'', Str ''isce''),
            (''MODEL_MIN_HEIGHT'', Float (Fin 5))] ''MOGI_X'' = Some (Float (Fin 3))"
proof -
  have e: "prepare_metadata [(''_fieldnames'', Str ''MOGI_X''), (''MOGI_X'', Float (Fin 0))]
       ex_plot [(''MOGI_X'', Fin 3)]
     = Inr [(''MOGI_X'', Float (Fin 3)), (''UNIT'', Str ''m''),
            (''FILE_TYPE'', Str ''displacement''), (''PROCESSOR'', Str ''isce''),
            (''MODEL_MIN_HEIGHT'', Float (Fin 5))]"
    by (simp add: prepare_metadata_def pop_key_def ex_plot_def)
  have d: "distinct (map fst [(''MOGI_X'', Fin 3)])" by simp
  from metadata_precedence [OF e d] e show ?thesis by simp
qed

text \<open>
  C7, as the program has it. The merged metadata binds \<^verbatim>\<open>UNIT\<close> to \<^verbatim>\<open>m\<close>,
  \<^verbatim>\<open>FILE_TYPE\<close> to \<^verbatim>\<open>displacement\<close> and \<^verbatim>\<open>PROCESSOR\<close> to \<^verbatim>\<open>isce\<close>, each unless a
  model parameter has that key (and then overrides the tag).
\<close>

theorem fixed_tags:
  assumes "prepare_metadata fmeta p mDict = Inr meta"
  shows "(''UNIT'' \<in> fst ` set mDict \<or> map_of meta ''UNIT'' = Some (Str ''m''))
       \<and> (''FILE_TYPE'' \<in> fst ` set mDict
            \<or> map_of meta ''FILE_TYPE'' = Some (Str ''displacement''))
       \<and> (''PROCESSOR'' \<in> fst ` set mDict \<or> map_of meta ''PROCESSOR'' = Some (Str ''isce''))"
proof -
  have n: "map_of (rev (map (\<lambda>(key, val). (key, Float val)) mDict)) k = None"
    if "k \<notin> fst ` set mDict" for k
    using that by (simp add: map_of_eq_None_iff image_image case_prod_unfold)
  have base: "map_of meta k =
           (((map_of (AList.delete ''_fieldnames'' fmeta))
               (''UNIT'' \<mapsto> Str ''m'', ''FILE_TYPE'' \<mapsto> Str ''displacement'',
                ''PROCESSOR'' \<mapsto> Str ''isce''))
             ++ (case minHeight p of None \<Rightarrow> Map.empty
                 | Some h \<Rightarrow> [''MODEL_MIN_HEIGHT'' \<mapsto> Float h])) k"
    if "k \<notin> fst ` set mDict" for k
    using n [OF that] by (simp add: prepare_metadata_lookup [OF assms] map_add_def)
  have "map_of meta ''UNIT'' = Some (Str ''m'')" if "''UNIT'' \<notin> fst ` set mDict"
    by (simp add: base [OF that] map_add_def split: option.splits)
  moreover have "map_of meta ''FILE_TYPE'' = Some (Str ''displacement'')"
    if "''FILE_TYPE'' \<notin> fst ` set mDict"
    by (simp add: base [OF that] map_add_def split: option.splits)
  moreover have "map_of meta ''PROCESSOR'' = Some (Str ''isce'')"
    if "''PROCESSOR'' \<notin> fst ` set mDict"
    by (simp add: base [OF that] map_add_def split: option.splits)
  ultimately show ?thesis by blast
qed

theorem fixed_tags_witness:
  "prepare_metadata (Metadata ex_datafile) ex_plot [(''MOGI_X'', Fin 3)]
     = Inr [(''WIDTH'', Float (Fin 2)), (''UNIT'', Str ''m''),
            (''FILE_TYPE'', Str ''displacement''), (''PROCESSOR'', Str ''isce''),
            (''MODEL_MIN_HEIGHT'', Float (Fin 5)), (''MOGI_X'', Float (Fin 3))]
   \<and> ''UNIT'' \<notin> fst ` set [(''MOGI_X'', Fin 3)]
   \<and> map_of [(''WIDTH'', Float (Fin 2)), (''UNIT'', Str ''m''),
            (''FILE_TYPE'', Str ''displacement''), (''PROCESSOR'', Str ''isce''),
            (''MODEL_MIN_HEIGHT'', Float (Fin 5)), (''MOGI_X'', Float (Fin 3))] ''UNIT''
       = Some (Str ''m'')"
proof -
  have e: "prepare_metadata (Metadata ex_datafile) ex_plot [(''MOGI_X'', Fin 3)]
     = Inr [(''WIDTH'', Float (Fin 2)), (''UNIT'', Str ''m''),
            (''FILE_TYPE'', Str ''displacement''), (''PROCESSOR'', Str ''isce''),
            (''MODEL_MIN_HEIGHT'', Float (Fin 5)), (''MOGI_X'', Float (Fin 3))]"
    by (simp add: ex_prepare_metadata)
  from fixed_tags [OF e] e show ?thesis by simp
qed

text \<open>
  C7 as stated fails on the metadata of the example: the unit tag is \<^verbatim>\<open>m\<close>, not
  \<^verbatim>\<open>meters\<close>; and with a model parameter named \<^verbatim>\<open>UNIT\<close> the tag is that parameter's
  value.
\<close>

theorem unit_tag_is_m:
  "prepare_metadata (Metadata ex_datafile) ex_plot []
     = Inr [(''WIDTH'', Float (Fin 2)), (''UNIT'', Str ''m''),
            (''FILE_TYPE'', Str ''displacement''), (''PROCESSOR'', Str ''isce''),
            (''MODEL_MIN_HEIGHT'', Float (Fin 5))]
   \<and> Str ''m'' \<noteq> Str ''meters''
   \<and> prepare_metadata (Metadata ex_datafile) ex_plot [(''UNIT'', Fin 1)]
     = Inr [(''WIDTH'', Float (Fin 2)), (''UNIT'', Float (Fin 1)),
            (''FILE_TYPE'', Str ''displacement''), (''PROCESSOR'', Str ''isce''),
            (''MODEL_MIN_HEIGHT'', Float (Fin 5))]"
  by (simp add: ex_prepare_metadata)

section \<open>The conversion\<close>

subsection \<open>The names of the output files\<close>

lemma process_file_name:
  "process_file env out_dir m mDict display i w = (Inr f, w') \<Longrightarrow>
     f = path_join out_dir (name (insarPlots m ! i) @ ''.h5'') \<and> i < length (insarPlots m)"
  by (auto simp: process_file_def output_record_def Let_def
      split: sum.splits prod.splits if_splits option.splits)

lemma process_files_names:
  "process_files env out_dir m mDict display is outs w = (Inr outs', w') \<Longrightarrow>
     outs' = outs @ map (\<lambda>i. path_join out_dir (name (insarPlots m ! i) @ ''.h5'')) is
     \<and> (\<forall>i\<in>set is. i < length (insarPlots m))"
proof (induction "is" arbitrary: outs w)
  case Nil
  then show ?case by simp
next
  case (Cons i "is")
  from Cons.prems obtain f w1 where
    one: "process_file env out_dir m mDict display i w = (Inr f, w1)"
    and rest: "process_files env out_dir m mDict display is (outs @ [f]) w1 = (Inr outs', w')"
    by (auto split: sum.splits prod.splits)
  from process_file_name [OF one] Cons.IH [OF rest] show ?case by simp
qed

lemma gbis_names:
  assumes "gbis_mat2hdf5 env mat_file display w = (Inr out_files, w')"
    and "loadmat env mat_file = Inr m"
  shows "out_files = map (\<lambda>i. path_join (dirname mat_file) (name (insarPlots m ! i) @ ''.h5''))
                       [0..<length (insar m)]"
proof -
  from assms obtain mDict w1 where
    "process_files env (dirname mat_file) m mDict display [0..<length (insar m)] [] w
       = (Inr out_files, w1)"
    by (auto simp: gbis_mat2hdf5_def Let_def split: sum.splits prod.splits option.splits if_splits)
  from process_files_names [OF this] show ?thesis by simp
qed

subsection \<open>The conversion of the example\<close>

lemma ex_model_dict:
  "model_dict (geod_fwd (ex_env m)) ex_mat
     = Inr [(''MOGI_X'', Fin 3), (''MOGI_Y'', Fin 4), (''MOGI_depth'', Fin 5),
            (''MOGI_latitude'', Fin 20), (''MOGI_longitude'', Fin 10)]"
  by (simp add: model_dict_def ex_mat_def ex_env_def grab_model_def mDict_step_def
      replace_space_def upt_rec model_lonlat_def model_name_def split_def isspace_def)


lemma ex_output_record:
  assumes "insarPlots m = [ex_plot, ex_plot2]"
  shows "output_record (loadmat_data (ex_env m')) ''/gbis'' m mDict 0
     = Inr (ex_grids, ''/gbis/T100_asc.h5'',
            fold (\<lambda>(key, val). AList.update key (Float val)) mDict
              [(''WIDTH'', Float (Fin 2)), (''UNIT'', Str ''m''),
               (''FILE_TYPE'', Str ''displacement''), (''PROCESSOR'', Str ''isce''),
               (''MODEL_MIN_HEIGHT'', Float (Fin 5))])"
    and "output_record (loadmat_data (ex_env m')) ''/gbis'' m mDict (Suc 0)
     = Inr (ex_grids2, ''/gbis/T107_dsc.h5'',
            fold (\<lambda>(key, val). AList.update key (Float val)) mDict
              [(''WIDTH'', Float (Fin 2)), (''UNIT'', Str ''m''),
               (''FILE_TYPE'', Str ''displacement''), (''PROCESSOR'', Str ''isce'')])"
proof -
  have r: "reconstruct (Mask ex_datafile) 2 2 (data ex_plot)
             = Inr \<lparr>shape = [2, 2], flat = [Fin 1, NaN, NaN, Fin 2]\<rparr>"
    "reconstruct (Mask ex_datafile) 2 2 (model ex_plot)
             = Inr \<lparr>shape = [2, 2], flat = [Fin 1, NaN, NaN, Fin 1]\<rparr>"
    "reconstruct (Mask ex_datafile) 2 2 (residual ex_plot)
             = Inr \<lparr>shape = [2, 2], flat = [Fin 0, NaN, NaN, Fin 1]\<rparr>"
    "reconstruct (Mask ex_datafile) 2 2 (data ex_plot2)
             = Inr \<lparr>shape = [2, 2], flat = [Fin 2, NaN, NaN, Fin 1]\<rparr>"
    "reconstruct (Mask ex_datafile) 2 2 (model ex_plot2)
             = Inr \<lparr>shape = [2, 2], flat = [Fin 2, NaN, NaN, Fin 2]\<rparr>"
    "reconstruct (Mask ex_datafile) 2 2 (residual ex_plot2)
             = Inr \<lparr>shape = [2, 2], flat = [Fin 0, NaN, NaN, Fin 1]\<rparr>"
    by (simp_all add: ex_reconstruct ex_plot_def ex_plot2_def float32_1 float32_2)
  have n: "path_join ''/gbis'' (name ex_plot @ ''.h5'') = ''/gbis/T100_asc.h5''"
    "path_join ''/gbis'' (name ex_plot2 @ ''.h5'') = ''/gbis/T107_dsc.h5''"
    by (simp_all add: path_join_def ex_plot_def ex_plot2_def)
  have l: "loadmat_data (ex_env m') f = Inr ex_datafile" for f
    by (simp add: ex_env_def)
  show "output_record (loadmat_data (ex_env m')) ''/gbis'' m mDict 0
     = Inr (ex_grids, ''/gbis/T100_asc.h5'',
            fold (\<lambda>(key, val). AList.update key (Float val)) mDict
              [(''WIDTH'', Float (Fin 2)), (''UNIT'', Str ''m''),
               (''FILE_TYPE'', Str ''displacement''), (''PROCESSOR'', Str ''isce''),
               (''MODEL_MIN_HEIGHT'', Float (Fin 5))])"
    by (simp add: output_record_def assms l ex_mask r n ex_prepare_metadata ex_grids_def)
  show "output_record (loadmat_data (ex_env m')) ''/gbis'' m mDict (Suc 0)
     = Inr (ex_grids2, ''/gbis/T107_dsc.h5'',
            fold (\<lambda>(key, val). AList.update key (Float val)) mDict
              [(''WIDTH'', Float (Fin 2)), (''UNIT'', Str ''m''),
               (''FILE_TYPE'', Str ''displacement''), (''PROCESSOR'', Str ''isce'')])"
    by (simp add: output_record_def assms l ex_mask r n ex_prepare_metadata ex_grids2_def)
qed

lemma ex_gbis:
  assumes "length (insar m) = 2" and "insarPlots m = [ex_plot, ex_plot2]"
    and "model_dict (geod_fwd (ex_env m)) m = Inr mDict"
  shows "gbis_mat2hdf5 (ex_env m) ''/gbis/invert_1_2_C.mat'' display w
     = (Inr [''/gbis/T100_asc.h5'', ''/gbis/T107_dsc.h5''],
        w @ [(''/gbis/T100_asc.h5'', ex_grids,
              fold (\<lambda>(key, val). AList.update key (Float val)) mDict
                [(''WIDTH'', Float (Fin 2)), (''UNIT'', Str ''m''),
                 (''FILE_TYPE'', Str ''displacement''), (''PROCESSOR'', Str ''isce''),
                 (''MODEL_MIN_HEIGHT'', Float (Fin 5))]),
             (''/gbis/T107_dsc.h5'', ex_grids2,
              fold (\<lambda>(key, val). AList.update key (Float val)) mDict
                [(''WIDTH'', Float (Fin 2)), (''UNIT'', Str ''m''),
                 (''FILE_TYPE'', Str ''displacement''), (''PROCESSOR'', Str ''isce'')])])"
proof -
  have d: "dirname ''/gbis/invert_1_2_C.mat'' = ''/gbis''"
    by (simp add: dirname_def rstrip_sep_def)
  have l: "loadmat (ex_env m) f = Inr m" for f
    by (simp add: ex_env_def)
  have q: "plt_subplots (ex_env m) n = None" "plt_show (ex_env m) = None"
    "plt_panels (ex_env m) i n ds s = None"
    "writefile_write (ex_env m) ds f meta v = (None, v @ [(f, ds, meta)])" for i n ds s f meta v
    by (simp_all add: ex_env_def record_write_def)
  have p: "process_file (ex_env m) ''/gbis'' m mDict dsp 0 v
     = (Inr ''/gbis/T100_asc.h5'',
        v @ [(''/gbis/T100_asc.h5'', ex_grids,
              fold (\<lambda>(key, val). AList.update key (Float val)) mDict
                [(''WIDTH'', Float (Fin 2)), (''UNIT'', Str ''m''),
                 (''FILE_TYPE'', Str ''displacement''), (''PROCESSOR'', Str ''isce''),
                 (''MODEL_MIN_HEIGHT'', Float (Fin 5))])])"
    "process_file (ex_env m) ''/gbis'' m mDict dsp (Suc 0) v
     = (Inr ''/gbis/T107_dsc.h5'',
        v @ [(''/gbis/T107_dsc.h5'', ex_grids2,
              fold (\<lambda>(key, val). AList.update key (Float val)) mDict
                [(''WIDTH'', Float (Fin 2)), (''UNIT'', Str ''m''),
                 (''FILE_TYPE'', Str ''displacement''), (''PROCESSOR'', Str ''isce'')])])"
    for dsp v
    by (simp_all add: process_file_def ex_output_record [OF assms(2)] q)
  have u: "[0..<length (insar m)] = [0, Suc 0]"
    by (simp add: assms(1) upt_rec)
  show ?thesis
    by (simp add: gbis_mat2hdf5_def d l q u assms(3) p)
qed

lemma ex_fields:
  "length (insar ex_mat) = 2" "insarPlots ex_mat = [ex_plot, ex_plot2]"
  "length (insar dup_mat) = 2" "insarPlots dup_mat = [ex_plot, ex_plot2]"
  by (simp_all add: ex_mat_def dup_mat_def)

lemma ex_run:
  "gbis_mat2hdf5 (ex_env ex_mat) ''/gbis/invert_1_2_C.mat'' display w
     = (Inr [''/gbis/T100_asc.h5'', ''/gbis/T107_dsc.h5''], w @ ex_written)"
  by (simp add: ex_gbis [OF ex_fields(1,2) ex_model_dict] ex_written_def)


text \<open>
  C8. A conversion that succeeds returns one output file name for each interferogram, in
  the order of the input: the directory of the inversion file joined with the name of the
  record and the extension \<^verbatim>\<open>.h5\<close>. The \<^verbatim>\<open>--output\<close> name is never read: whatever it is,
  \<^verbatim>\<open>main\<close> does the same.
\<close>

theorem output_names:
  assumes "main env args w = (Inr out_files, w')"
    and "loadmat env (os_abspath env (infile args)) = Inr m"
  shows "out_files = map (\<lambda>i. path_join (dirname (os_abspath env (infile args)))
                                 (name (insarPlots m ! i) @ ''.h5''))
                       [0..<length (insar m)]
         \<and> length out_files = length (insar m)
         \<and> main env (args\<lparr>outfile := out\<rparr>) w = main env args w"
proof -
  have "gbis_mat2hdf5 env (os_abspath env (infile args)) (disp_fig args) w = (Inr out_files, w')"
    using assms(1) by (simp add: main_def cmd_line_parse_def)
  from gbis_names [OF this assms(2)] show ?thesis
    by (simp add: main_def cmd_line_parse_def)
qed

theorem output_names_witness:
  "main (ex_env ex_mat) ex_args []
     = (Inr [''/gbis/T100_asc.h5'', ''/gbis/T107_dsc.h5''], ex_written)
   \<and> outfile ex_args = Some ''model.h5''
   \<and> main (ex_env ex_mat) (ex_args\<lparr>outfile := None\<rparr>) []
     = (Inr [''/gbis/T100_asc.h5'', ''/gbis/T107_dsc.h5''], ex_written)"
proof -
  have a: "os_abspath (ex_env ex_mat) (infile ex_args) = ''/gbis/invert_1_2_C.mat''"
    by (simp add: ex_env_def ex_args_def)
  have r: "main (ex_env ex_mat) ex_args []
             = (Inr [''/gbis/T100_asc.h5'', ''/gbis/T107_dsc.h5''], ex_written)"
    by (simp add: main_def cmd_line_parse_def a ex_run)
  have l: "loadmat (ex_env ex_mat) (os_abspath (ex_env ex_mat) (infile ex_args)) = Inr ex_mat"
    by (simp add: ex_env_def)
  from output_names [OF r l, of None] r show ?thesis by (simp add: ex_args_def)
qed

subsection \<open>Repeated runs\<close>







end
